theory Spec2Isabelle
  imports
    Complex_Main
    "HOL-Library.AList"
    "HOL-Library.Product_Lexorder"
    "HOL-Library.Char_ord"
    "HOL-Library.List_Lexorder"
begin

section \<open>Data model\<close>

text \<open>
  The reconstruction works on rows of the merged tick feed (Python dicts produced by
  \<^verbatim>\<open>DataFrame.to_dicts()\<close>). Integers are Python's unbounded ints. Prices and amounts
  are Python floats; they are modelled as reals, so the rounding of \<^verbatim>\<open>price * qty\<close> is
  not represented. The two columns that the code itself tests against \<^verbatim>\<open>None\<close>
  (\<^verbatim>\<open>Price\<close> and \<^verbatim>\<open>TradeMoney\<close>) are optional values.
\<close>

datatype error = ValueError | TypeError | FileNotFoundError

text \<open>
  A handler mutates the containers it is given and may raise afterwards. An outcome
  therefore always carries the containers as they are when the handler is left.
\<close>

datatype 'a outcome = Returned 'a | Raised error 'a

fun state_of :: "'a outcome \<Rightarrow> 'a" where
  "state_of (Returned s) = s"
| "state_of (Raised e s) = s"

fun raised :: "'a outcome \<Rightarrow> error option" where
  "raised (Returned s) = None"
| "raised (Raised e s) = Some e"

record row =
  SecurityID :: string
  BizIndex :: int
  TickTime :: int
  Type :: string
  BuyOrderNO :: int
  SellOrderNO :: int
  Price :: "real option"
  Qty :: int
  TradeMoney :: "real option"
  TickBSFlag :: string

text \<open>\<^verbatim>\<open>models.py\<close>: the dataclass \<^verbatim>\<open>OrderContext\<close>. The price attributes are declared
  \<^verbatim>\<open>float\<close> but receive whatever the row holds, so they are optional as well.\<close>

record OrderContext =
  order_no :: int
  side :: string
  first_time :: int
  first_biz_index :: int
  trade_qty :: int
  resting_qty :: int
  trade_price :: "real option"
  resting_price :: "real option"
  is_aggressive :: bool
  has_resting :: bool

text \<open>Output dicts of the order table (prefix \<open>o_\<close>) and of the trade table (prefix \<open>t_\<close>).\<close>

record order_record =
  o_SecurityID :: string
  o_BizIndex :: int
  o_TickTime :: int
  o_OrdID :: int
  o_OrdType :: string
  o_Side :: string
  o_Price :: "real option"
  o_Qty :: int
  o_IsAggressive :: "bool option"

record trade_record =
  t_SecurityID :: string
  t_BizIndex :: int
  t_TickTime :: int
  t_BidOrdID :: int
  t_AskOrdID :: int
  t_Price :: "real option"
  t_Qty :: int
  t_TradeMoney :: real
  t_ActiveSide :: int

text \<open>
  The order cache is a Python dict, which iterates in insertion order and keeps the
  position of a key whose value changes: an association list, read with \<open>map_of\<close> and
  written with \<open>AList.update\<close> (in place for a known key, at the end for a new one).
\<close>

type_synonym order_map = "(int \<times> OrderContext) list"

section \<open>OrderContext methods\<close>

definition add_trade_qty :: "OrderContext \<Rightarrow> int \<Rightarrow> error + OrderContext" where
  "add_trade_qty self qty =
     (if qty < 0 then Inl ValueError
      else Inr (self\<lparr>trade_qty := trade_qty self + qty\<rparr>))"

definition add_resting_qty :: "OrderContext \<Rightarrow> int \<Rightarrow> error + OrderContext" where
  "add_resting_qty self qty =
     (if qty < 0 then Inl ValueError
      else Inr (self\<lparr>resting_qty := resting_qty self + qty\<rparr>))"

text \<open>\<^verbatim>\<open>resting_price if resting_price > 0 else trade_price\<close>; comparing \<^verbatim>\<open>None\<close> with
  \<^verbatim>\<open>0\<close> raises \<^verbatim>\<open>TypeError\<close>.\<close>

definition get_price :: "OrderContext \<Rightarrow> error + real option" where
  "get_price self =
     (case resting_price self of
        None \<Rightarrow> Inl TypeError
      | Some rp \<Rightarrow> Inr (if rp > 0 then Some rp else trade_price self))"


section \<open>Session filter\<close>

definition MORNING_START :: int where "MORNING_START = 93000000"
definition MORNING_END :: int where "MORNING_END = 113000000"
definition AFTERNOON_START :: int where "AFTERNOON_START = 130000000"
definition AFTERNOON_END :: int where "AFTERNOON_END = 150000000"

definition is_continuous_trading_time :: "int \<Rightarrow> bool" where
  "is_continuous_trading_time tick_time =
     (if MORNING_START \<le> tick_time \<and> tick_time < MORNING_END then True
      else if AFTERNOON_START \<le> tick_time \<and> tick_time < AFTERNOON_END then True
      else False)"

section \<open>Event handlers\<close>

text \<open>\<^verbatim>\<open>process_trade\<close>: the trade record is appended before the cache is touched, so it
  is already in \<^verbatim>\<open>trade_list\<close> when \<^verbatim>\<open>add_trade_qty\<close> raises.\<close>

definition process_trade ::
  "row \<Rightarrow> order_map \<Rightarrow> trade_record list \<Rightarrow> string \<Rightarrow> (order_map \<times> trade_record list) outcome"
where
  "process_trade row order_map trade_list security_id =
     (let biz_index = BizIndex row;
          tick_time = TickTime row;
          buy_order_no = BuyOrderNO row;
          sell_order_no = SellOrderNO row;
          price = Price row;
          qty = Qty row;
          bs_flag = TickBSFlag row;
          (active_side, active_order_no, active_side_char) =
            (if bs_flag = ''B'' then (1 :: int, Some buy_order_no, ''B'')
             else if bs_flag = ''S'' then (2, Some sell_order_no, ''S'')
             else (0, None, []));
          trade_money = TradeMoney row
      in if (trade_money = None \<or> trade_money = Some 0) \<and> price = None
         then Raised TypeError (order_map, trade_list)
         else
           let trade_money =
                 (if trade_money = None \<or> trade_money = Some 0
                  then the price * of_int qty else the trade_money);
               trade_record =
                 \<lparr>t_SecurityID = security_id, t_BizIndex = biz_index, t_TickTime = tick_time,
                  t_BidOrdID = buy_order_no, t_AskOrdID = sell_order_no, t_Price = price,
                  t_Qty = qty, t_TradeMoney = trade_money, t_ActiveSide = active_side\<rparr>;
               trade_list = trade_list @ [trade_record]
           in case active_order_no of
                None \<Rightarrow> Returned (order_map, trade_list)
              | Some active_order_no \<Rightarrow>
                  (case map_of order_map active_order_no of
                     Some ctx \<Rightarrow>
                       (case add_trade_qty ctx qty of
                          Inl e \<Rightarrow> Raised e (order_map, trade_list)
                        | Inr ctx \<Rightarrow>
                            Returned
                              (AList.update active_order_no (ctx\<lparr>trade_price := price\<rparr>) order_map,
                               trade_list))
                   | None \<Rightarrow>
                       Returned
                         (AList.update active_order_no
                            \<lparr>order_no = active_order_no, side = active_side_char,
                             first_time = tick_time, first_biz_index = biz_index,
                             trade_qty = qty, resting_qty = 0,
                             trade_price = price, resting_price = Some 0,
                             is_aggressive = True, has_resting = False\<rparr>
                            order_map,
                          trade_list)))"

text \<open>\<^verbatim>\<open>process_add_order\<close>: both branches call \<^verbatim>\<open>add_resting_qty\<close> before anything is
  stored, so a raise leaves the cache as it was.\<close>

definition process_add_order :: "row \<Rightarrow> order_map \<Rightarrow> order_map outcome" where
  "process_add_order row order_map =
     (let bs_flag = TickBSFlag row;
          (order_no, side) =
            (if bs_flag = ''B'' then (BuyOrderNO row, ''B'') else (SellOrderNO row, ''S''))
      in case map_of order_map order_no of
           Some ctx \<Rightarrow>
             (case add_resting_qty ctx (Qty row) of
                Inl e \<Rightarrow> Raised e order_map
              | Inr ctx \<Rightarrow>
                  Returned
                    (AList.update order_no
                       (ctx\<lparr>resting_price := Price row, has_resting := True\<rparr>) order_map))
         | None \<Rightarrow>
             (let ctx = \<lparr>order_no = order_no, side = side,
                         first_time = TickTime row, first_biz_index = BizIndex row,
                         trade_qty = 0, resting_qty = 0,
                         trade_price = Some 0, resting_price = Some 0,
                         is_aggressive = False, has_resting = False\<rparr>
              in case add_resting_qty ctx (Qty row) of
                   Inl e \<Rightarrow> Raised e order_map
                 | Inr ctx \<Rightarrow>
                     Returned
                       (AList.update order_no
                          (ctx\<lparr>resting_price := Price row, has_resting := True\<rparr>) order_map)))"

text \<open>\<^verbatim>\<open>process_delete_order\<close>: the three price levels, then the Cancel record.\<close>

definition process_delete_order ::
  "row \<Rightarrow> order_map \<Rightarrow> order_record list \<Rightarrow> real \<Rightarrow> string
     \<Rightarrow> (order_map \<times> order_record list) outcome"
where
  "process_delete_order row order_map order_list last_price security_id =
     (let bs_flag = TickBSFlag row;
          (order_no, side) =
            (if bs_flag = ''B'' then (BuyOrderNO row, ''B'') else (SellOrderNO row, ''S''));
          raw_price = Price row;
          cancel_price =
            (if raw_price \<noteq> None \<and> the raw_price > 0 then Inr raw_price
             else case map_of order_map order_no of
                    Some ctx \<Rightarrow> get_price ctx
                  | None \<Rightarrow> Inr (Some last_price))
      in case cancel_price of
           Inl e \<Rightarrow> Raised e (order_map, order_list)
         | Inr cancel_price \<Rightarrow>
             Returned
               (order_map,
                order_list @
                  [\<lparr>o_SecurityID = security_id, o_BizIndex = BizIndex row,
                    o_TickTime = TickTime row, o_OrdID = order_no, o_OrdType = ''Cancel'',
                    o_Side = side, o_Price = cancel_price, o_Qty = Qty row,
                    o_IsAggressive = None\<rparr>]))"

section \<open>Settlement\<close>

text \<open>\<^verbatim>\<open>settle_orders\<close>: one pass over the cache in insertion order. The test
  \<^verbatim>\<open>ctx.resting_price > 0\<close> raises on \<^verbatim>\<open>None\<close>; the records appended before stay.\<close>

fun settle_orders ::
  "order_map \<Rightarrow> order_record list \<Rightarrow> string \<Rightarrow> order_record list outcome"
where
  "settle_orders [] order_list security_id = Returned order_list"
| "settle_orders ((ord_no, ctx) # rest) order_list security_id =
     (let total_qty = trade_qty ctx + resting_qty ctx
      in if total_qty \<le> 0 then settle_orders rest order_list security_id
         else case resting_price ctx of
                None \<Rightarrow> Raised TypeError order_list
              | Some rp \<Rightarrow>
                  (let price = (if rp > 0 then resting_price ctx else trade_price ctx)
                   in settle_orders rest
                        (order_list @
                           [\<lparr>o_SecurityID = security_id, o_BizIndex = first_biz_index ctx,
                             o_TickTime = first_time ctx, o_OrdID = ord_no,
                             o_OrdType = ''New'', o_Side = side ctx, o_Price = price,
                             o_Qty = total_qty, o_IsAggressive = Some (is_aggressive ctx)\<rparr>])
                        security_id))"

section \<open>Per-security driver\<close>

record engine_state =
  order_map :: order_map
  order_list :: "order_record list"
  trade_list :: "trade_record list"
  last_price :: real

definition init_state :: engine_state where
  "init_state = \<lparr>order_map = [], order_list = [], trade_list = [], last_price = 0\<rparr>"

text \<open>The body of the row loop. An exception leaves \<^verbatim>\<open>reconstruct_sh_tick_data\<close>, whose
  local containers are then lost: the step returns the error alone.\<close>

definition process_row :: "string \<Rightarrow> row \<Rightarrow> engine_state \<Rightarrow> error + engine_state" where
  "process_row security_id row st =
     (let record_type = Type row
      in if record_type = ''T'' then
           (case process_trade row (order_map st) (trade_list st) security_id of
              Raised e s \<Rightarrow> Inl e
            | Returned (om, trades) \<Rightarrow>
                Inr (st\<lparr>order_map := om, trade_list := trades,
                        last_price :=
                          (case Price row of
                             None \<Rightarrow> last_price st
                           | Some price \<Rightarrow> if price > 0 then price else last_price st)\<rparr>))
         else if record_type = ''A'' then
           (case process_add_order row (order_map st) of
              Raised e s \<Rightarrow> Inl e
            | Returned om \<Rightarrow> Inr (st\<lparr>order_map := om\<rparr>))
         else if record_type = ''D'' then
           (case process_delete_order row (order_map st) (order_list st) (last_price st)
                   security_id of
              Raised e s \<Rightarrow> Inl e
            | Returned (om, orders) \<Rightarrow> Inr (st\<lparr>order_map := om, order_list := orders\<rparr>))
         else Inr st)"

fun process_rows :: "string \<Rightarrow> row list \<Rightarrow> engine_state \<Rightarrow> error + engine_state" where
  "process_rows security_id [] st = Inr st"
| "process_rows security_id (row # rows) st =
     (case process_row security_id row st of
        Inl e \<Rightarrow> Inl e
      | Inr st' \<Rightarrow> process_rows security_id rows st')"

text \<open>Step 1 of \<^verbatim>\<open>reconstruct_sh_tick_data\<close>: the two filters and the sort on
  \<^verbatim>\<open>(TickTime, BizIndex)\<close>. Rows that agree on both keys keep their input order here;
  the data frame library promises no order for them. The sorts of the two output lists
  are Python's \<^verbatim>\<open>list.sort\<close>, which is stable.\<close>

definition preprocess :: "row list \<Rightarrow> row list" where
  "preprocess df =
     (let df_filtered = filter (\<lambda>r. Type r \<noteq> ''S'') df;
          df_filtered = filter (\<lambda>r. is_continuous_trading_time (TickTime r)) df_filtered
      in sort_key (\<lambda>r. (TickTime r, BizIndex r)) df_filtered)"

definition reconstruct_sh_tick_data ::
  "row list \<Rightarrow> string \<Rightarrow> error + (order_record list \<times> trade_record list)"
where
  "reconstruct_sh_tick_data df security_id =
     (case process_rows security_id (preprocess df) init_state of
        Inl e \<Rightarrow> Inl e
      | Inr st \<Rightarrow>
          (case settle_orders (order_map st) (order_list st) security_id of
             Raised e orders \<Rightarrow> Inl e
           | Returned orders \<Rightarrow>
               Inr (sort_key (\<lambda>x. (o_TickTime x, o_BizIndex x)) orders,
                    sort_key (\<lambda>x. (t_TickTime x, t_BizIndex x)) (trade_list st))))"

section \<open>Batch coordinator\<close>

text \<open>
  \<^verbatim>\<open>process_daily_data\<close> up to the end of its loop over the securities (Step 2). The
  observer is an arbitrary callable; what the model keeps of it is the list of argument
  triples it has been called with, in call order. The input file is the list of its rows
  (\<open>None\<close> when the file does not exist). Steps 3 to 5 (building the data frames, the
  market-wide sort, writing the Parquet files, the statistics) come after the loop and
  never reach the observer.
\<close>

record batch_state =
  calls :: "(string \<times> int \<times> int) list"
  all_orders :: "order_record list"
  all_trades :: "trade_record list"

definition init_batch :: batch_state where
  "init_batch = \<lparr>calls = [], all_orders = [], all_trades = []\<rparr>"

fun process_securities ::
  "row list \<Rightarrow> bool \<Rightarrow> int \<Rightarrow> (nat \<times> string) list \<Rightarrow> batch_state \<Rightarrow> batch_state outcome"
where
  "process_securities df progress_callback total_securities [] bs = Returned bs"
| "process_securities df progress_callback total_securities ((i, security_id) # rest) bs =
     (let bs = (if progress_callback
                then bs\<lparr>calls := calls bs @ [(security_id, int i + 1, total_securities)]\<rparr>
                else bs);
          group_df = filter (\<lambda>r. SecurityID r = security_id) df
      in case reconstruct_sh_tick_data group_df security_id of
           Inl e \<Rightarrow> Raised e bs
         | Inr (orders, trades) \<Rightarrow>
             process_securities df progress_callback total_securities rest
               (bs\<lparr>all_orders := all_orders bs @ orders,
                   all_trades := all_trades bs @ trades\<rparr>))"

text \<open>\<^verbatim>\<open>str.isdigit\<close> on a date of ASCII characters.\<close>

definition isdigit :: "string \<Rightarrow> bool" where
  "isdigit s = (s \<noteq> [] \<and> list_all (\<lambda>c. c \<in> set ''0123456789'') s)"

definition process_daily_data :: "string \<Rightarrow> row list option \<Rightarrow> bool \<Rightarrow> batch_state outcome" where
  "process_daily_data date input progress_callback =
     (if length date \<noteq> 8 \<or> \<not> isdigit date then Raised ValueError init_batch
      else case input of
             None \<Rightarrow> Raised FileNotFoundError init_batch
           | Some df \<Rightarrow>
               (let security_ids = sort (remdups (map SecurityID df));
                    total_securities = int (length security_ids)
                in process_securities df progress_callback total_securities
                     (enumerate 0 security_ids) init_batch))"

section \<open>Notions used in the statements\<close>

text \<open>The order number and side that \<^verbatim>\<open>process_add_order\<close> and
  \<^verbatim>\<open>process_delete_order\<close> resolve from a row.\<close>

definition resolved_order_no :: "row \<Rightarrow> int" where
  "resolved_order_no row = (if TickBSFlag row = ''B'' then BuyOrderNO row else SellOrderNO row)"

definition resolved_side :: "row \<Rightarrow> string" where
  "resolved_side row = (if TickBSFlag row = ''B'' then ''B'' else ''S'')"

text \<open>The order whose cache entry a row of the loop creates or accumulates into: the
  active order of a trade flagged B or S, the resolved order of an add, none otherwise.\<close>

definition referenced_order_no :: "row \<Rightarrow> int option" where
  "referenced_order_no row =
     (if Type row = ''T'' then
        (if TickBSFlag row = ''B'' then Some (BuyOrderNO row)
         else if TickBSFlag row = ''S'' then Some (SellOrderNO row)
         else None)
      else if Type row = ''A'' then Some (resolved_order_no row)
      else None)"


text \<open>The Cancel record of a delete row, for a given price.\<close>

definition cancel_record :: "string \<Rightarrow> row \<Rightarrow> real option \<Rightarrow> order_record" where
  "cancel_record sid row pr =
     \<lparr>o_SecurityID = sid, o_BizIndex = BizIndex row, o_TickTime = TickTime row,
      o_OrdID = resolved_order_no row, o_OrdType = ''Cancel'', o_Side = resolved_side row,
      o_Price = pr, o_Qty = Qty row, o_IsAggressive = None\<rparr>"

text \<open>A row with every column given, for the concrete runs below.\<close>

definition mk_row ::
  "string \<Rightarrow> int \<Rightarrow> int \<Rightarrow> string \<Rightarrow> int \<Rightarrow> int \<Rightarrow> real option \<Rightarrow> int \<Rightarrow> real option \<Rightarrow> string \<Rightarrow> row"
where
  "mk_row sid biz t ty buy sell pr q money flag =
     \<lparr>SecurityID = sid, BizIndex = biz, TickTime = t, Type = ty, BuyOrderNO = buy,
      SellOrderNO = sell, Price = pr, Qty = q, TradeMoney = money, TickBSFlag = flag\<rparr>"



text \<open>The continuous session as two half-open intervals of \<^verbatim>\<open>HHMMSSmmm\<close> times.\<close>

definition in_session :: "int \<Rightarrow> bool" where
  "in_session t = ((93000000 \<le> t \<and> t < 113000000) \<or> (130000000 \<le> t \<and> t < 150000000))"

text \<open>Whether the reconstruction of one security of a day's feed returns.\<close>

definition completes :: "row list \<Rightarrow> string \<Rightarrow> bool" where
  "completes df s =
     (case reconstruct_sh_tick_data (filter (\<lambda>r. SecurityID r = s) df) s of
        Inl e \<Rightarrow> False
      | Inr res \<Rightarrow> True)"

text \<open>The observer's arguments for the security at a position of the enumeration.\<close>

definition call_of :: "int \<Rightarrow> nat \<times> string \<Rightarrow> string \<times> int \<times> int" where
  "call_of n p = (snd p, int (fst p) + 1, n)"

subsection \<open>Concrete rows\<close>

text \<open>Scenario D of the module's own end-to-end test: an add of 1000 at 70.0 for buy
  order 4001, then a delete of 500 for it, with a given price column.\<close>

definition add_4001 :: row where
  "add_4001 = mk_row ''600519'' 400 93003000 ''A'' 4001 0 (Some 70) 1000 (Some 0) ''B''"

definition delete_4001 :: "real option \<Rightarrow> row" where
  "delete_4001 pr = mk_row ''600519'' 401 93003500 ''D'' 4001 0 pr 500 (Some 0) ''B''"

definition resting_4001 :: OrderContext where
  "resting_4001 =
     \<lparr>order_no = 4001, side = ''B'', first_time = 93003000, first_biz_index = 400,
      trade_qty = 0, resting_qty = 1000, trade_price = Some 0, resting_price = Some 70,
      is_aggressive = False, has_resting = True\<rparr>"

text \<open>A trade of 1 at 10.0 whose amount column is negative, and an auction trade.\<close>

definition trade_neg_money :: row where
  "trade_neg_money =
     mk_row ''600519'' 100 93000100 ''T'' 1001 2001 (Some 10) 1 (Some (- 5)) ''N''"

definition trade_auction :: row where
  "trade_auction =
     mk_row ''600519'' 102 93000300 ''T'' 1003 2003 (Some 52) 100 (Some 5200) ''N''"

text \<open>A buy-initiated trade with a negative quantity for an order not yet cached.\<close>

definition trade_neg_qty :: row where
  "trade_neg_qty =
     mk_row ''600519'' 100 93000100 ''T'' 1001 2001 (Some 10) (- 100) (Some 0) ''B''"











text \<open>A trade at 09:25, in the opening call auction, and a status row inside the
  session.\<close>

definition trade_0925 :: row where
  "trade_0925 = mk_row ''600519'' 1 92500000 ''T'' 5001 6001 (Some 10) 100 (Some 1000) ''B''"

definition status_0930 :: row where
  "status_0930 = mk_row ''600519'' 601 93000100 ''S'' 0 0 (Some 0) 0 (Some 0) ''TRADE''"

text \<open>Rows of a second security: an add of 100 and an add with a negative quantity.\<close>

definition add_600000 :: row where
  "add_600000 = mk_row ''600000'' 1 93000000 ''A'' 1 0 (Some 10) 100 (Some 0) ''B''"

definition add_neg_qty :: row where
  "add_neg_qty = mk_row ''600000'' 1 93000000 ''A'' 1 0 (Some 10) (- 1) (Some 0) ''B''"

section \<open>Cancellation records\<close>

text \<open>
  C3. A delete row yields one Cancel record whose price is the row's own price if that
  is strictly positive; otherwise the cached order's price (its resting price if
  positive, else its trade price) if the resolved order number is cached; otherwise the
  last trade price. The record carries the delete row's own BizIndex and TickTime and no
  aggressiveness flag. (A cached order whose resting price is \<^verbatim>\<open>None\<close> makes the second
  level raise; that needs an add row without a price.)
\<close>

theorem delete_price_fallback:
  "(\<forall>p. Price row = Some p \<and> 0 < p \<longrightarrow>
      process_delete_order row om ol lp sid =
        Returned (om, ol @ [cancel_record sid row (Some p)]))
   \<and> (\<forall>ctx rp. \<not> (\<exists>p. Price row = Some p \<and> 0 < p) \<and>
         map_of om (resolved_order_no row) = Some ctx \<and> resting_price ctx = Some rp \<longrightarrow>
      process_delete_order row om ol lp sid =
        Returned (om, ol @ [cancel_record sid row (if 0 < rp then Some rp else trade_price ctx)]))
   \<and> (\<not> (\<exists>p. Price row = Some p \<and> 0 < p) \<and> map_of om (resolved_order_no row) = None \<longrightarrow>
      process_delete_order row om ol lp sid =
        Returned (om, ol @ [cancel_record sid row (Some lp)]))"
  by (auto simp: process_delete_order_def cancel_record_def resolved_order_no_def
        resolved_side_def get_price_def Let_def split: option.splits)

theorem delete_price_fallback_witness:
  "process_delete_order (delete_4001 (Some 71)) [(4001, resting_4001)] [] 69 ''600519'' =
     Returned ([(4001, resting_4001)],
               [cancel_record ''600519'' (delete_4001 (Some 71)) (Some 71)])
   \<and> process_delete_order (delete_4001 (Some 0)) [(4001, resting_4001)] [] 69 ''600519'' =
     Returned ([(4001, resting_4001)],
               [cancel_record ''600519'' (delete_4001 (Some 0)) (Some 70)])
   \<and> process_delete_order (delete_4001 None) [] [] 69 ''600519'' =
     Returned ([], [cancel_record ''600519'' (delete_4001 None) (Some 69)])"
  using delete_price_fallback
          [of "delete_4001 (Some 71)" "[(4001, resting_4001)]" "[]" 69 "''600519''"]
        delete_price_fallback
          [of "delete_4001 (Some 0)" "[(4001, resting_4001)]" "[]" 69 "''600519''"]
        delete_price_fallback [of "delete_4001 None" "[]" "[]" 69 "''600519''"]
  by (simp add: delete_4001_def mk_row_def resolved_order_no_def resting_4001_def)

text \<open>
  C4. Whatever a delete row does (return or raise), the cache it leaves is the cache it
  was given. On scenario D the run therefore yields both the settled New record of
  order 4001 with its full 1000 at 70.0, not aggressive, and the Cancel record at 70.0
  without an aggressiveness flag.
\<close>

theorem delete_leaves_cache:
  "fst (state_of (process_delete_order row om ol lp sid)) = om
   \<and> reconstruct_sh_tick_data [add_4001, delete_4001 (Some 0)] ''600519'' =
       Inr ([\<lparr>o_SecurityID = ''600519'', o_BizIndex = 400, o_TickTime = 93003000,
              o_OrdID = 4001, o_OrdType = ''New'', o_Side = ''B'', o_Price = Some 70,
              o_Qty = 1000, o_IsAggressive = Some False\<rparr>,
             \<lparr>o_SecurityID = ''600519'', o_BizIndex = 401, o_TickTime = 93003500,
              o_OrdID = 4001, o_OrdType = ''Cancel'', o_Side = ''B'', o_Price = Some 70,
              o_Qty = 500, o_IsAggressive = None\<rparr>],
            [])"
proof
  show "fst (state_of (process_delete_order row om ol lp sid)) = om"
    by (simp add: process_delete_order_def Let_def split: option.splits sum.splits prod.splits)
next
  show "reconstruct_sh_tick_data [add_4001, delete_4001 (Some 0)] ''600519'' =
       Inr ([\<lparr>o_SecurityID = ''600519'', o_BizIndex = 400, o_TickTime = 93003000,
              o_OrdID = 4001, o_OrdType = ''New'', o_Side = ''B'', o_Price = Some 70,
              o_Qty = 1000, o_IsAggressive = Some False\<rparr>,
             \<lparr>o_SecurityID = ''600519'', o_BizIndex = 401, o_TickTime = 93003500,
              o_OrdID = 4001, o_OrdType = ''Cancel'', o_Side = ''B'', o_Price = Some 70,
              o_Qty = 500, o_IsAggressive = None\<rparr>],
            [])"
    by (simp add: reconstruct_sh_tick_data_def preprocess_def is_continuous_trading_time_def
          MORNING_START_def MORNING_END_def AFTERNOON_START_def AFTERNOON_END_def
          add_4001_def delete_4001_def mk_row_def init_state_def process_row_def
          process_add_order_def process_delete_order_def add_resting_qty_def get_price_def
          Let_def)
qed

section \<open>Trade records\<close>

text \<open>
  C5, as the code has it. A trade row with a price appends exactly one trade record,
  whatever its flag and whether or not the cache update then raises. Its TradeMoney is
  the row's own amount when that is present and not zero (a negative amount is kept),
  and price times quantity when the amount is absent or zero.
\<close>

theorem trade_record_money:
  assumes "Price row = Some p"
  shows "\<exists>rec. snd (state_of (process_trade row om ts sid)) = ts @ [rec]
           \<and> t_TradeMoney rec =
               (case TradeMoney row of
                  None \<Rightarrow> p * of_int (Qty row)
                | Some m \<Rightarrow> if m = 0 then p * of_int (Qty row) else m)
           \<and> t_BizIndex rec = BizIndex row \<and> t_TickTime rec = TickTime row
           \<and> t_Price rec = Some p \<and> t_Qty rec = Qty row
           \<and> t_BidOrdID rec = BuyOrderNO row \<and> t_AskOrdID rec = SellOrderNO row
           \<and> t_SecurityID rec = sid"
  using assms
  by (auto simp: process_trade_def Let_def split: option.splits sum.splits)

theorem trade_record_money_witness:
  "\<exists>rec. snd (state_of (process_trade trade_auction [] [] ''600519'')) = [] @ [rec]
      \<and> t_TradeMoney rec = 5200 \<and> t_BizIndex rec = 102 \<and> t_TickTime rec = 93000300
      \<and> t_Price rec = Some 52 \<and> t_Qty rec = 100
      \<and> t_BidOrdID rec = 1003 \<and> t_AskOrdID rec = 2003 \<and> t_SecurityID rec = ''600519''"
  using trade_record_money [of trade_auction 52 "[]" "[]" "''600519''"]
  by (simp add: trade_auction_def mk_row_def)

text \<open>
  The claim as written takes the row's amount only when it is strictly positive. A row
  with amount -5, price 10 and quantity 1 gets TradeMoney -5, not 10.
\<close>

theorem trade_money_counterexample:
  "map t_TradeMoney (snd (state_of (process_trade trade_neg_money [] [] ''600519''))) = [- 5]
   \<and> TradeMoney trade_neg_money = Some (- 5) \<and> \<not> (0 :: real) < - 5
   \<and> the (Price trade_neg_money) * of_int (Qty trade_neg_money) \<noteq> - 5"
  by (simp add: trade_neg_money_def mk_row_def process_trade_def Let_def)

text \<open>
  C6. A trade row whose flag is neither B nor S leaves the cache exactly as it was,
  and (given a price) returns with one more trade record, whose ActiveSide is 0.
\<close>

theorem auction_trade_frame:
  assumes "TickBSFlag row \<noteq> ''B''" and "TickBSFlag row \<noteq> ''S''"
  shows "fst (state_of (process_trade row om ts sid)) = om
         \<and> (Price row \<noteq> None \<longrightarrow>
              (\<exists>rec. process_trade row om ts sid = Returned (om, ts @ [rec])
                 \<and> t_ActiveSide rec = 0 \<and> t_BizIndex rec = BizIndex row
                 \<and> t_TickTime rec = TickTime row \<and> t_Qty rec = Qty row
                 \<and> t_Price rec = Price row))"
  using assms
  by (auto simp: process_trade_def Let_def split: option.splits sum.splits)

theorem auction_trade_frame_witness:
  "fst (state_of (process_trade trade_auction [(4001, resting_4001)] [] ''600519'')) =
     [(4001, resting_4001)]
   \<and> (\<exists>rec. process_trade trade_auction [(4001, resting_4001)] [] ''600519'' =
              Returned ([(4001, resting_4001)], [] @ [rec])
            \<and> t_ActiveSide rec = 0 \<and> t_BizIndex rec = 102 \<and> t_TickTime rec = 93000300
            \<and> t_Qty rec = 100 \<and> t_Price rec = Some 52)"
  using auction_trade_frame [of trade_auction "[(4001, resting_4001)]" "[]" "''600519''"]
  by (simp add: trade_auction_def mk_row_def)

section \<open>Side resolution of add and delete rows\<close>





section \<open>Negative quantities\<close>

text \<open>Where the cache is written through \<^verbatim>\<open>add_trade_qty\<close> or \<^verbatim>\<open>add_resting_qty\<close>, a
  negative quantity raises and the cache stays as it was: every add row, and a trade row
  whose active order is already cached.\<close>

lemma negative_add_rejected:
  "Qty row < 0 \<Longrightarrow> process_add_order row om = Raised ValueError om"
  by (simp add: process_add_order_def add_resting_qty_def Let_def split: option.splits)

lemma negative_trade_known_order_rejected:
  assumes "Qty row < 0" and "Type row = ''T''" and "referenced_order_no row = Some k"
    and "map_of om k = Some c"
  shows "raised (process_trade row om ts sid) = Some ValueError \<or>
         raised (process_trade row om ts sid) = Some TypeError"
    and "fst (state_of (process_trade row om ts sid)) = om"
  using assms
  by (auto simp: process_trade_def referenced_order_no_def add_trade_qty_def Let_def
        split: if_splits)

text \<open>
  C8 does not hold for a trade row whose active order is not yet cached: the context is
  built with \<^verbatim>\<open>trade_qty=qty\<close> directly, without the check of \<^verbatim>\<open>add_trade_qty\<close>. The
  handler returns normally and the cache holds a negative \<open>trade_qty\<close>.
\<close>

theorem negative_trade_qty_enters_cache:
  "process_trade trade_neg_qty [] [] ''600519'' =
     Returned
       ([(1001,
          \<lparr>order_no = 1001, side = ''B'', first_time = 93000100, first_biz_index = 100,
           trade_qty = - 100, resting_qty = 0, trade_price = Some 10,
           resting_price = Some 0, is_aggressive = True, has_resting = False\<rparr>)],
        [\<lparr>t_SecurityID = ''600519'', t_BizIndex = 100, t_TickTime = 93000100,
          t_BidOrdID = 1001, t_AskOrdID = 2001, t_Price = Some 10, t_Qty = - 100,
          t_TradeMoney = - 1000, t_ActiveSide = 1\<rparr>])"
  by (simp add: trade_neg_qty_def mk_row_def process_trade_def Let_def)

section \<open>The row loop\<close>










text \<open>The price handed to \<^verbatim>\<open>process_delete_order\<close> as last resort: that of the latest
  trade row with a strictly positive price, carried over every other row.\<close>

lemma last_price_tracks_trades:
  assumes "process_row sid row st = Inr st'"
  shows "last_price st' =
           (if Type row = ''T'' \<and> (\<exists>p. Price row = Some p \<and> 0 < p) then the (Price row)
            else last_price st)"
  using assms
  by (auto simp: process_row_def Let_def
        split: if_splits option.splits outcome.splits prod.splits)

text \<open>A result of the driver comes from a run of the loop over the preprocessed rows
  and a settlement of the cache that run leaves.\<close>

lemma reconstruct_Inr:
  assumes "reconstruct_sh_tick_data df sid = Inr (orders, trades)"
  obtains st ol where "process_rows sid (preprocess df) init_state = Inr st"
    and "settle_orders (order_map st) (order_list st) sid = Returned ol"
    and "orders = sort_key (\<lambda>x. (o_TickTime x, o_BizIndex x)) ol"
    and "trades = sort_key (\<lambda>x. (t_TickTime x, t_BizIndex x)) (trade_list st)"
  using assms
  by (auto simp: reconstruct_sh_tick_data_def split: sum.splits outcome.splits)











text \<open>Rows that all carry a price and a quantity that is not negative never make the
  loop or the settlement raise: every cached resting price is then a number.\<close>

lemma set_update_cases:
  "e \<in> set (AList.update k v xs) \<Longrightarrow> e = (k, v) \<or> e \<in> set xs"
  by (induction xs) (auto split: if_splits)

lemma process_row_returns:
  assumes "Price row \<noteq> None" and "0 \<le> Qty row"
    and "\<forall>e \<in> set (order_map st). resting_price (snd e) \<noteq> None"
  shows "\<exists>st'. process_row sid row st = Inr st'
           \<and> (\<forall>e \<in> set (order_map st'). resting_price (snd e) \<noteq> None)"
proof -
  have price: "get_price c \<noteq> Inl er" if "map_of (order_map st) k = Some c" for k c er
  proof -
    from that have "(k, c) \<in> set (order_map st)" by (rule map_of_SomeD)
    with assms(3) show ?thesis by (auto simp: get_price_def split: option.splits)
  qed
  have kept: "resting_price c \<noteq> None" if "map_of (order_map st) k = Some c" for k c
  proof -
    from that have "(k, c) \<in> set (order_map st)" by (rule map_of_SomeD)
    with assms(3) show ?thesis by auto
  qed
  consider "Type row = ''T''" | "Type row \<noteq> ''T''" "Type row = ''A''"
    | "Type row \<noteq> ''T''" "Type row \<noteq> ''A''" "Type row = ''D''"
    | "Type row \<noteq> ''T''" "Type row \<noteq> ''A''" "Type row \<noteq> ''D''"
    by blast
  then show ?thesis
  proof cases
    case 1
    with assms kept show ?thesis
      by (auto simp: process_row_def process_trade_def add_trade_qty_def Let_def
            split: option.splits dest!: set_update_cases)
  next
    case 2
    with assms kept show ?thesis
      by (auto simp: process_row_def process_add_order_def add_resting_qty_def Let_def
            split: option.splits dest!: set_update_cases)
  next
    case 3
    with assms price show ?thesis
      by (auto simp: process_row_def process_delete_order_def Let_def
            split: option.splits sum.splits)
  next
    case 4
    with assms show ?thesis
      by (simp add: process_row_def)
  qed
qed

lemma process_rows_returns:
  "\<forall>r \<in> set rows. Price r \<noteq> None \<and> 0 \<le> Qty r
     \<Longrightarrow> \<forall>e \<in> set (order_map st). resting_price (snd e) \<noteq> None
     \<Longrightarrow> \<exists>st'. process_rows sid rows st = Inr st'
           \<and> (\<forall>e \<in> set (order_map st'). resting_price (snd e) \<noteq> None)"
proof (induction rows arbitrary: st)
  case Nil
  then show ?case by simp
next
  case (Cons row rows)
  then have "Price row \<noteq> None" "0 \<le> Qty row" by simp_all
  from process_row_returns [OF this Cons.prems(2)] obtain s where
    s: "process_row sid row st = Inr s" "\<forall>e \<in> set (order_map s). resting_price (snd e) \<noteq> None"
    by blast
  from Cons.prems(1) have "\<forall>r \<in> set rows. Price r \<noteq> None \<and> 0 \<le> Qty r" by simp
  from Cons.IH [OF this s(2)] s(1) show ?case by simp
qed

lemma settle_orders_returns:
  "\<forall>e \<in> set om. resting_price (snd e) \<noteq> None \<Longrightarrow> \<exists>ol'. settle_orders om ol sid = Returned ol'"
  by (induction om ol sid rule: settle_orders.induct) (auto simp: Let_def)

lemma reconstruct_returns:
  assumes "\<forall>r \<in> set df. Price r \<noteq> None \<and> 0 \<le> Qty r"
  shows "\<exists>orders trades. reconstruct_sh_tick_data df sid = Inr (orders, trades)"
proof -
  have "set (preprocess df) \<subseteq> set df"
    by (auto simp: preprocess_def)
  with assms have "\<forall>r \<in> set (preprocess df). Price r \<noteq> None \<and> 0 \<le> Qty r"
    by blast
  from process_rows_returns [OF this, of init_state sid] obtain st where
    st: "process_rows sid (preprocess df) init_state = Inr st"
        "\<forall>e \<in> set (order_map st). resting_price (snd e) \<noteq> None"
    by (auto simp: init_state_def)
  from settle_orders_returns [OF st(2)] obtain ol where
    "settle_orders (order_map st) (order_list st) sid = Returned ol"
    by blast
  with st(1) show ?thesis
    by (simp add: reconstruct_sh_tick_data_def)
qed








section \<open>Settlement pass\<close>




section \<open>Rows outside the session and status rows\<close>

lemma is_continuous_in_session: "is_continuous_trading_time t = in_session t"
  by (auto simp: is_continuous_trading_time_def in_session_def MORNING_START_def MORNING_END_def
       AFTERNOON_START_def AFTERNOON_END_def)

lemma preprocess_eq:
  "preprocess df = sort_key (\<lambda>r. (TickTime r, BizIndex r))
                     (filter (\<lambda>r. Type r \<noteq> ''S'' \<and> in_session (TickTime r)) df)"
  by (simp add: preprocess_def is_continuous_in_session conj_commute)

text \<open>
  C7. A status row, or a row whose TickTime lies outside [09:30:00.000, 11:30:00.000)
  and [13:00:00.000, 15:00:00.000), can be taken out of the input without changing the
  rows the loop sees, hence without changing any output or any cached order. An input of
  such rows only gives no record at all, and so does a single row stamped 09:25,
  whatever its type.
\<close>

theorem filtered_rows_contribute_nothing:
  "(Type r = ''S'' \<or> \<not> in_session (TickTime r) \<longrightarrow>
      preprocess (xs @ r # ys) = preprocess (xs @ ys)
      \<and> reconstruct_sh_tick_data (xs @ r # ys) sid = reconstruct_sh_tick_data (xs @ ys) sid)
   \<and> ((\<forall>r \<in> set df. Type r = ''S'' \<or> \<not> in_session (TickTime r)) \<longrightarrow>
        reconstruct_sh_tick_data df sid = Inr ([], []))
   \<and> (TickTime r = 92500000 \<longrightarrow> reconstruct_sh_tick_data [r] sid = Inr ([], []))"
proof (intro conjI impI)
  assume d: "Type r = ''S'' \<or> \<not> in_session (TickTime r)"
  then show p: "preprocess (xs @ r # ys) = preprocess (xs @ ys)"
    by (auto simp: preprocess_eq)
  then show "reconstruct_sh_tick_data (xs @ r # ys) sid = reconstruct_sh_tick_data (xs @ ys) sid"
    by (simp add: reconstruct_sh_tick_data_def)
next
  assume "\<forall>r \<in> set df. Type r = ''S'' \<or> \<not> in_session (TickTime r)"
  then have "filter (\<lambda>r. Type r \<noteq> ''S'' \<and> in_session (TickTime r)) df = []"
    by (auto simp: filter_empty_conv)
  then have "preprocess df = []"
    by (simp add: preprocess_eq)
  then show "reconstruct_sh_tick_data df sid = Inr ([], [])"
    by (simp add: reconstruct_sh_tick_data_def init_state_def)
next
  assume "TickTime r = 92500000"
  then have "preprocess [r] = []"
    by (simp add: preprocess_eq in_session_def)
  then show "reconstruct_sh_tick_data [r] sid = Inr ([], [])"
    by (simp add: reconstruct_sh_tick_data_def init_state_def)
qed

theorem filtered_rows_contribute_nothing_witness:
  "reconstruct_sh_tick_data ([add_4001] @ trade_0925 # [delete_4001 (Some 0)]) ''600519'' =
     reconstruct_sh_tick_data ([add_4001] @ [delete_4001 (Some 0)]) ''600519''
   \<and> reconstruct_sh_tick_data ([add_4001] @ status_0930 # [delete_4001 (Some 0)]) ''600519'' =
     reconstruct_sh_tick_data ([add_4001] @ [delete_4001 (Some 0)]) ''600519''
   \<and> reconstruct_sh_tick_data [trade_0925, status_0930] ''600519'' = Inr ([], [])
   \<and> reconstruct_sh_tick_data [trade_0925] ''600519'' = Inr ([], [])"
  using filtered_rows_contribute_nothing
          [of trade_0925 "[add_4001]" "[delete_4001 (Some 0)]" "''600519''" "[trade_0925, status_0930]"]
        filtered_rows_contribute_nothing
          [of status_0930 "[add_4001]" "[delete_4001 (Some 0)]" "''600519''" "[]"]
  by (simp add: trade_0925_def status_0930_def mk_row_def in_session_def)

section \<open>Progress callback of the batch run\<close>

lemma process_securities_calls:
  "calls (state_of (process_securities df True n idx bs)) =
     calls bs @ map (call_of n)
       (take (Suc (length (takeWhile (completes df) (map snd idx)))) idx)"
proof (induction idx arbitrary: bs)
  case Nil
  then show ?case by simp
next
  case (Cons p idx)
  obtain i s where p: "p = (i, s)" by (cases p)
  show ?case
  proof (cases "completes df s")
    case True
    then obtain orders trades where
      "reconstruct_sh_tick_data (filter (\<lambda>r. SecurityID r = s) df) s = Inr (orders, trades)"
      by (auto simp: completes_def split: sum.splits)
    with Cons.IH True p show ?thesis
      by (simp add: Let_def call_of_def)
  next
    case False
    then obtain e where
      "reconstruct_sh_tick_data (filter (\<lambda>r. SecurityID r = s) df) s = Inl e"
      by (auto simp: completes_def split: sum.splits)
    with False p show ?thesis
      by (simp add: Let_def call_of_def)
  qed
qed

lemma process_securities_returned:
  "raised (process_securities df cb n idx bs) = None \<longleftrightarrow>
     list_all (completes df) (map snd idx)"
proof (induction idx arbitrary: bs)
  case Nil
  then show ?case by simp
next
  case (Cons p idx)
  obtain i s where p: "p = (i, s)" by (cases p)
  show ?case
    using Cons.IH p
    by (auto simp: Let_def completes_def split: sum.splits)
qed


text \<open>
  C9, as the code has it. The observer is called at the start of each iteration, before
  the security is reconstructed. Its calls are therefore one per security started: every
  security of the sorted distinct list up to and including the first whose reconstruction
  raises. The arguments are the security, its 1-based position in that list and the length
  of the list. When no reconstruction raises, that is one call per distinct security of
  the feed.
\<close>

theorem progress_callback_calls:
  assumes "length date = 8" and "isdigit date"
  shows "let ids = sort (remdups (map SecurityID df));
             out = process_daily_data date (Some df) True
         in calls (state_of out) =
              map (call_of (int (length ids)))
                (take (Suc (length (takeWhile (completes df) ids))) (enumerate 0 ids))
            \<and> distinct ids \<and> set ids = SecurityID ` set df
            \<and> (raised out = None \<longleftrightarrow> list_all (completes df) ids)
            \<and> (raised out = None \<longrightarrow>
                 calls (state_of out) = map (call_of (int (length ids))) (enumerate 0 ids))"
proof -
  define ids where "ids = sort (remdups (map SecurityID df))"
  define out where "out = process_daily_data date (Some df) True"
  have out: "out = process_securities df True (int (length ids)) (enumerate 0 ids) init_batch"
    using assms by (simp add: out_def ids_def process_daily_data_def Let_def)
  have c: "calls (state_of out) =
              map (call_of (int (length ids)))
                (take (Suc (length (takeWhile (completes df) ids))) (enumerate 0 ids))"
    by (simp add: out process_securities_calls init_batch_def)
  have r: "raised out = None \<longleftrightarrow> list_all (completes df) ids"
    by (simp add: out process_securities_returned)
  have full: "calls (state_of out) = map (call_of (int (length ids))) (enumerate 0 ids)"
    if "raised out = None"
  proof -
    from that r have "takeWhile (completes df) ids = ids"
      by (simp add: list_all_iff)
    with c show ?thesis by simp
  qed
  have "distinct ids" "set ids = SecurityID ` set df"
    by (simp_all add: ids_def)
  with c r full show ?thesis
    unfolding Let_def ids_def [symmetric] out_def [symmetric] by blast
qed

theorem progress_callback_calls_witness:
  "calls (state_of (process_daily_data ''20260126'' (Some [add_4001, add_600000]) True)) =
     [(''600000'', 1, 2), (''600519'', 2, 2)]"
proof -
  have ids: "sort (remdups (map SecurityID [add_4001, add_600000])) = [''600000'', ''600519'']"
    by (simp add: add_4001_def add_600000_def mk_row_def less_eq_char_def less_char_def)
  have ok: "completes [add_4001, add_600000] ''600000''"
    by (simp add: completes_def add_4001_def add_600000_def mk_row_def
          reconstruct_sh_tick_data_def preprocess_def is_continuous_trading_time_def
          MORNING_START_def MORNING_END_def AFTERNOON_START_def AFTERNOON_END_def
          init_state_def process_row_def process_add_order_def add_resting_qty_def Let_def)
  have d: "length ''20260126'' = 8" "isdigit ''20260126''"
    by (simp_all add: isdigit_def)
  from progress_callback_calls [OF d, of "[add_4001, add_600000]", unfolded Let_def ids] ok
  show ?thesis
    by (simp add: call_of_def)
qed

text \<open>
  The claim as written counts completed securities. A feed whose only security has one
  add row with a negative quantity completes no security, yet the observer has been
  called once, with count 1.
\<close>

theorem progress_callback_counterexample:
  "process_daily_data ''20260126'' (Some [add_neg_qty]) True =
     Raised ValueError \<lparr>calls = [(''600000'', 1, 1)], all_orders = [], all_trades = []\<rparr>
   \<and> filter (completes [add_neg_qty]) (sort (remdups (map SecurityID [add_neg_qty]))) = []"
  by (simp add: process_daily_data_def isdigit_def add_neg_qty_def mk_row_def Let_def
        init_batch_def completes_def
        reconstruct_sh_tick_data_def preprocess_def is_continuous_trading_time_def
        MORNING_START_def MORNING_END_def AFTERNOON_START_def AFTERNOON_END_def
        init_state_def process_row_def process_add_order_def add_resting_qty_def)


end
